theory Spec2Isabelle
  imports Main "HOL-Library.Multiset"
begin

text \<open>
  The job application tracker of \<^verbatim>\<open>src/JobTracker.jsx\<close>: one React component that
  signs in to Firebase, mirrors the user's Firestore collection into a sorted list, and
  adds, updates and deletes documents. The model is a shallow embedding of the component:
  its state cells in a record, its effects, callbacks and handlers as functions on that
  record, and every call into the SDK appended to a trace.
\<close>

section \<open>JavaScript values\<close>

text \<open>
  The values that reach the component of \<^verbatim>\<open>src/JobTracker.jsx\<close>: what a Firestore document
  field holds, what a \<^verbatim>\<open>select\<close> hands to a handler, and \<^verbatim>\<open>undefined\<close>/\<^verbatim>\<open>null\<close>.
  \<open>Timestamp ms\<close> is a Firestore \<^verbatim>\<open>Timestamp\<close> (the only value here with a \<^verbatim>\<open>toDate\<close>
  method), holding the milliseconds since the epoch that \<^verbatim>\<open>toDate()\<close> returns.
  \<open>Num\<close> holds integral numbers only.
\<close>

datatype jsval = Undefined | Null | Bool bool | Num int | Str string | Timestamp int

text \<open>JavaScript's \<^verbatim>\<open>ToBoolean\<close>, which \<^verbatim>\<open>!x\<close>, \<^verbatim>\<open>x || y\<close> and \<^verbatim>\<open>x ? a : b\<close> apply.\<close>

fun truthy :: "jsval \<Rightarrow> bool" where
  "truthy Undefined = False"
| "truthy Null = False"
| "truthy (Bool b) = b"
| "truthy (Num n) = (n \<noteq> 0)"
| "truthy (Str s) = (s \<noteq> [])"
| "truthy (Timestamp t) = True"

text \<open>An object is a map from property names to values; reading a missing property
  gives \<^verbatim>\<open>undefined\<close>.\<close>

type_synonym obj = "string \<rightharpoonup> jsval"

definition getProp :: "obj \<Rightarrow> string \<Rightarrow> jsval" where
  "getProp ob k = (case ob k of None \<Rightarrow> Undefined | Some v \<Rightarrow> v)"

section \<open>Status definitions and the display helper\<close>

record status_option =
  opt_value :: string
  opt_color :: string

definition STATUS_OPTIONS :: "status_option list" where
  "STATUS_OPTIONS =
    [\<lparr>opt_value = ''Applied'', opt_color = ''bg-blue-100 text-blue-800''\<rparr>,
     \<lparr>opt_value = ''Interviewing'', opt_color = ''bg-purple-100 text-purple-800''\<rparr>,
     \<lparr>opt_value = ''Offer'', opt_color = ''bg-green-100 text-green-800''\<rparr>,
     \<lparr>opt_value = ''Rejected'', opt_color = ''bg-red-100 text-red-800''\<rparr>,
     \<lparr>opt_value = ''Wishlist'', opt_color = ''bg-yellow-100 text-yellow-800''\<rparr>]"

text \<open>
  \<^verbatim>\<open>STATUS_OPTIONS.find(opt => opt.value === status)?.color || 'bg-gray-100 text-gray-800'\<close>.
  \<^verbatim>\<open>opt.value\<close> is a string, so \<^verbatim>\<open>===\<close> holds exactly when \<open>status\<close> is that string.
  \<^verbatim>\<open>find\<close> returns the first match or \<^verbatim>\<open>undefined\<close>; \<^verbatim>\<open>?.color\<close> of \<^verbatim>\<open>undefined\<close>
  is \<^verbatim>\<open>undefined\<close>; \<^verbatim>\<open>||\<close> takes the right operand when the left one is falsy.
\<close>

definition getStatusColor :: "jsval \<Rightarrow> string" where
  "getStatusColor status =
    (case find (\<lambda>opt. Str (opt_value opt) = status) STATUS_OPTIONS of
       None \<Rightarrow> ''bg-gray-100 text-gray-800''
     | Some opt \<Rightarrow>
         if truthy (Str (opt_color opt)) then opt_color opt else ''bg-gray-100 text-gray-800'')"

section \<open>Runtime functions the component calls\<close>

text \<open>
  Five functions of the JavaScript engine, the browser and the Firebase SDK are parameters
  of the model.
  \<open>newDate v\<close> is the time value of \<^verbatim>\<open>new Date(v)\<close> in milliseconds, \<open>None\<close> when the
  result is an Invalid Date (whose time value is \<^verbatim>\<open>NaN\<close>); which strings parse beyond the
  ISO format is left to the engine, so nothing is assumed about it.
  \<open>toISODate ms\<close> is \<^verbatim>\<open>new Date(ms).toISOString().substring(0, 10)\<close>.
  \<open>isValidURL\<close> is the browser's check of an \<^verbatim>\<open>input type="url"\<close>.
  \<open>isDateString\<close> says which strings an \<^verbatim>\<open>input type="date"\<close> keeps as its value (the valid
  date strings of HTML); it holds the empty value for every other string it is given.
  \<open>timestampAccepts t\<close> says whether \<^verbatim>\<open>Timestamp.fromDate\<close> returns for a date of time
  value \<open>t\<close>; otherwise it throws (the SDK refuses dates outside its range).
\<close>

record runtime =
  newDate :: "jsval \<Rightarrow> int option"
  toISODate :: "int \<Rightarrow> string"
  isValidURL :: "string \<Rightarrow> bool"
  isDateString :: "string \<Rightarrow> bool"
  timestampAccepts :: "int option \<Rightarrow> bool"

text \<open>
  \<^verbatim>\<open>Array.prototype.sort(comparefn)\<close>. ECMAScript's \<^verbatim>\<open>SortCompare\<close> calls the comparator
  and replaces a \<^verbatim>\<open>NaN\<close> result (\<open>None\<close> here) by \<open>+0\<close>. The sort is stable; it is
  modelled by insertion, each element going before the first element it does not follow.
  For a comparator that is not consistent (ECMAScript's term) the standard leaves the order
  to the engine, and this model is then one possible engine.
\<close>

definition SortCompare :: "('a \<Rightarrow> 'a \<Rightarrow> int option) \<Rightarrow> 'a \<Rightarrow> 'a \<Rightarrow> int" where
  "SortCompare comparefn x y = (case comparefn x y of None \<Rightarrow> 0 | Some v \<Rightarrow> v)"

fun sortInsert :: "('a \<Rightarrow> 'a \<Rightarrow> int option) \<Rightarrow> 'a \<Rightarrow> 'a list \<Rightarrow> 'a list" where
  "sortInsert comparefn x [] = [x]"
| "sortInsert comparefn x (y # ys) =
     (if SortCompare comparefn x y \<le> 0 then x # y # ys else y # sortInsert comparefn x ys)"

definition arraySort :: "('a \<Rightarrow> 'a \<Rightarrow> int option) \<Rightarrow> 'a list \<Rightarrow> 'a list" where
  "arraySort comparefn xs = foldr (sortInsert comparefn) xs []"

section \<open>Configuration from the Canvas globals\<close>

text \<open>
  The three globals, \<open>None\<close> when \<^verbatim>\<open>typeof\<close> gives \<^verbatim>\<open>'undefined'\<close>. \<open>firebase_config_global\<close>
  holds the object that \<^verbatim>\<open>JSON.parse(__firebase_config)\<close> returns, as its list of members.
\<close>

type_synonym config = "(string \<times> jsval) list"

record globals =
  app_id_global :: "string option"
  firebase_config_global :: "config option"
  initial_auth_token_global :: "string option"

definition appId :: "globals \<Rightarrow> string" where
  "appId g = (case app_id_global g of Some a \<Rightarrow> a | None \<Rightarrow> ''default-job-tracker-app'')"

definition firebaseConfig :: "globals \<Rightarrow> config option" where
  "firebaseConfig g = firebase_config_global g"

definition initialAuthToken :: "globals \<Rightarrow> jsval" where
  "initialAuthToken g = (case initial_auth_token_global g of Some t \<Rightarrow> Str t | None \<Rightarrow> Null)"

text \<open>The template \<^verbatim>\<open>`artifacts/${appId}/users/${userId}/jobApplications`\<close> and the path of
  \<^verbatim>\<open>doc(db, collectionPath, id)\<close>.\<close>

definition collectionPath :: "globals \<Rightarrow> string \<Rightarrow> string" where
  "collectionPath g uid = ''artifacts/'' @ appId g @ ''/users/'' @ uid @ ''/jobApplications''"

definition docPath :: "string \<Rightarrow> string \<Rightarrow> string" where
  "docPath collection ident = collection @ ''/'' @ ident"

section \<open>Component state\<close>

text \<open>The form state \<^verbatim>\<open>newJob\<close>; \<open>today\<close> is
  \<^verbatim>\<open>new Date().toISOString().substring(0, 10)\<close> at the time of the call.\<close>

record new_job =
  company :: string
  title :: string
  status :: string
  appliedDate :: string
  notes' :: string
  postingLink :: string
  documentsUsed :: string

definition initialNewJob :: "string \<Rightarrow> new_job" where
  "initialNewJob today =
    \<lparr>company = '''', title = '''', status = ''Applied'', appliedDate = today, notes' = '''',
     postingLink = '''', documentsUsed = ''''\<rparr>"

text \<open>
  The object handed to \<^verbatim>\<open>addDoc\<close>:
  \<^verbatim>\<open>{...newJob, appliedDate: Timestamp.fromDate(new Date(newJob.appliedDate)), createdAt: Timestamp.now()}\<close>.
  \<open>add_appliedDate\<close> is the time value of the date given to \<^verbatim>\<open>Timestamp.fromDate\<close>
  (\<open>None\<close> for an Invalid Date), \<open>add_createdAt\<close> the time of \<^verbatim>\<open>Timestamp.now()\<close>.
  The object exists only when \<^verbatim>\<open>Timestamp.fromDate\<close> returns; \<open>handleAddJob\<close> has the
  other case.
\<close>

record job_to_add =
  add_company :: string
  add_title :: string
  add_status :: string
  add_appliedDate :: "int option"
  add_notes :: string
  add_postingLink :: string
  add_documentsUsed :: string
  add_createdAt :: int

text \<open>Calls into the Firebase SDK, in the order they are made.\<close>

datatype call =
    SetLogLevel string
  | InitializeApp config
  | SignInWithCustomToken string
  | SignInAnonymously
  | OnAuthStateChanged
  | OnSnapshot string
  | Unsubscribe string
  | AddDoc string job_to_add
  | UpdateDoc string "(string \<times> jsval) list"
  | DeleteDoc string

text \<open>The data operations: the subscription and the three writes.\<close>

fun isDataCall :: "call \<Rightarrow> bool" where
  "isDataCall (OnSnapshot p) = True"
| "isDataCall (AddDoc p j) = True"
| "isDataCall (UpdateDoc p fs) = True"
| "isDataCall (DeleteDoc p) = True"
| "isDataCall c = False"

text \<open>
  The \<^verbatim>\<open>useState\<close> cells of \<^verbatim>\<open>App\<close>, and what the component has done to the outside:
  \<open>authListener\<close> (the \<^verbatim>\<open>onAuthStateChanged\<close> listener is registered), \<open>subscription\<close>
  (the collection path of the live \<^verbatim>\<open>onSnapshot\<close> listener), \<open>calls\<close> (SDK calls),
  \<open>prompts\<close> (\<^verbatim>\<open>window.confirm\<close> questions) and \<open>console\<close> (\<^verbatim>\<open>console.error\<close> messages).
  \<open>db\<close> and \<open>auth\<close> hold the configuration their instance was made from.
\<close>

record app_state =
  db :: "config option"
  auth :: "config option"
  userId :: "string option"
  jobs :: "obj list"
  loading :: bool
  showAddModal :: bool
  newJob :: new_job
  authListener :: bool
  subscription :: "string option"
  calls :: "call list"
  prompts :: "string list"
  console :: "string list"

definition initialState :: "string \<Rightarrow> app_state" where
  "initialState today =
    \<lparr>db = None, auth = None, userId = None, jobs = [], loading = True, showAddModal = False,
     newJob = initialNewJob today, authListener = False, subscription = None, calls = [],
     prompts = [], console = []\<rparr>"

text \<open>\<^verbatim>\<open>!userId\<close> for a cell that holds \<^verbatim>\<open>null\<close> or a string.\<close>

definition noUser :: "string option \<Rightarrow> bool" where
  "noUser u = (case u of None \<Rightarrow> True | Some s \<Rightarrow> \<not> truthy (Str s))"

section \<open>Effects\<close>

text \<open>
  The first \<^verbatim>\<open>useEffect\<close> (empty dependency list, run once after mounting). Without a
  configuration it logs and returns. Otherwise it makes the instances, starts
  \<^verbatim>\<open>authenticate()\<close>, which calls one of the two sign-in functions, and registers the
  identity listener. The sign-in's outcome and the listener's calls arrive later, as events.
\<close>

definition initEffect :: "globals \<Rightarrow> app_state \<Rightarrow> app_state" where
  "initEffect g st =
    (case firebaseConfig g of
       None \<Rightarrow> st\<lparr>console := console st @ [''Firebase config is missing.''], loading := False\<rparr>
     | Some cfg \<Rightarrow>
         st\<lparr>auth := Some cfg, db := Some cfg, authListener := True,
            calls := calls st @
              [SetLogLevel ''Debug'', InitializeApp cfg,
               (if truthy (initialAuthToken g)
                then SignInWithCustomToken (case initialAuthToken g of Str t \<Rightarrow> t | _ \<Rightarrow> [])
                else SignInAnonymously),
               OnAuthStateChanged]\<rparr>)"

text \<open>
  The second \<^verbatim>\<open>useEffect\<close>, with dependencies \<^verbatim>\<open>[db, userId]\<close>: React first runs the
  cleanup of the previous run (\<^verbatim>\<open>unsubscribe()\<close> when that run subscribed), then the body,
  which returns at once unless both the store handle and the user identifier are set.
  The SDK is taken to accept the collection path here: a throw inside an effect ends the
  component, which is outside the model.
\<close>

definition subscriptionEffect :: "globals \<Rightarrow> app_state \<Rightarrow> app_state" where
  "subscriptionEffect g st =
    (let st1 = (case subscription st of
                  None \<Rightarrow> st
                | Some p \<Rightarrow> st\<lparr>subscription := None, calls := calls st @ [Unsubscribe p]\<rparr>)
     in case (db st1, userId st1) of
          (Some d, Some uid) \<Rightarrow>
            if noUser (Some uid) then st1
            else st1\<lparr>subscription := Some (collectionPath g uid),
                     calls := calls st1 @ [OnSnapshot (collectionPath g uid)]\<rparr>
        | _ \<Rightarrow> st1)"

text \<open>After a state change React runs the second effect again when a dependency changed.\<close>

definition rerender :: "globals \<Rightarrow> app_state \<Rightarrow> app_state \<Rightarrow> app_state" where
  "rerender g old new =
    (if db new \<noteq> db old \<or> userId new \<noteq> userId old then subscriptionEffect g new else new)"

section \<open>The live collection mirror\<close>

text \<open>A document of a snapshot: \<^verbatim>\<open>doc.id\<close> and \<^verbatim>\<open>doc.data()\<close>.\<close>

record snapdoc =
  doc_id :: string
  doc_data :: obj

text \<open>
  \<^verbatim>\<open>{ id: doc.id, ...doc.data(), appliedDate: doc.data().appliedDate?.toDate ? doc.data().appliedDate.toDate().toISOString().substring(0, 10) : doc.data().appliedDate }\<close>:
  later properties of an object literal overwrite earlier ones of the same name.
\<close>

definition toJob :: "runtime \<Rightarrow> snapdoc \<Rightarrow> obj" where
  "toJob rt d =
    ([''id'' \<mapsto> Str (doc_id d)] ++ doc_data d)
      (''appliedDate'' \<mapsto>
         (case getProp (doc_data d) ''appliedDate'' of
            Timestamp ms \<Rightarrow> Str (toISODate rt ms)
          | v \<Rightarrow> v))"

text \<open>The comparator \<^verbatim>\<open>(a, b) => new Date(b.appliedDate) - new Date(a.appliedDate)\<close>;
  the difference is \<^verbatim>\<open>NaN\<close> when either date is invalid.\<close>

definition compareJobs :: "runtime \<Rightarrow> obj \<Rightarrow> obj \<Rightarrow> int option" where
  "compareJobs rt a b =
    (case (newDate rt (getProp b ''appliedDate''), newDate rt (getProp a ''appliedDate'')) of
       (Some tb, Some ta) \<Rightarrow> Some (tb - ta)
     | _ \<Rightarrow> None)"

text \<open>The two callbacks given to \<^verbatim>\<open>onSnapshot\<close>.\<close>

definition snapshotCallback :: "runtime \<Rightarrow> snapdoc list \<Rightarrow> app_state \<Rightarrow> app_state" where
  "snapshotCallback rt docs st =
    st\<lparr>jobs := arraySort (compareJobs rt) (map (toJob rt) docs), loading := False\<rparr>"

definition snapshotErrorCallback :: "app_state \<Rightarrow> app_state" where
  "snapshotErrorCallback st =
    st\<lparr>console := console st @ [''Firestore snapshot error:''], loading := False\<rparr>"

section \<open>CRUD operations\<close>

text \<open>
  Each handler takes what the environment decides: \<open>now\<close> (\<^verbatim>\<open>Timestamp.now()\<close>), \<open>today\<close>,
  the user's answer to \<^verbatim>\<open>window.confirm\<close>, and how the \<^verbatim>\<open>try\<close> block ends:
  \<^item> \<open>Resolved\<close>: the write function is called and its promise resolves;
  \<^item> \<open>Rejected\<close>: the write function is called and its promise rejects;
  \<^item> \<open>Thrown\<close>: \<^verbatim>\<open>collection(...)\<close> or \<^verbatim>\<open>doc(...)\<close> throws (a path the SDK does not
    accept), so the write function is not called.
  The \<^verbatim>\<open>catch\<close> block logs the last two. A handler returns the state after it;
  \<^verbatim>\<open>e.preventDefault()\<close> has no part in it.
\<close>

datatype outcome = Resolved | Rejected | Thrown

definition jobToAdd :: "runtime \<Rightarrow> int \<Rightarrow> new_job \<Rightarrow> job_to_add" where
  "jobToAdd rt now nj =
    \<lparr>add_company = company nj, add_title = title nj, add_status = status nj,
     add_appliedDate = newDate rt (Str (appliedDate nj)), add_notes = notes' nj,
     add_postingLink = postingLink nj, add_documentsUsed = documentsUsed nj,
     add_createdAt = now\<rparr>"

text \<open>
  \<open>handleAddJob\<close> builds \<^verbatim>\<open>jobToAdd\<close> (lines 129 to 133) before its \<^verbatim>\<open>try\<close> block (line
  135). When \<^verbatim>\<open>Timestamp.fromDate\<close> throws there, nothing catches it: the handler ends
  with no call and no log entry, and the state is as before.
\<close>

definition handleAddJob :: "runtime \<Rightarrow> globals \<Rightarrow> int \<Rightarrow> string \<Rightarrow> outcome \<Rightarrow> app_state \<Rightarrow> app_state" where
  "handleAddJob rt g now today oc st =
    (case (db st, userId st) of
       (Some d, Some uid) \<Rightarrow>
         if noUser (Some uid)
         then st\<lparr>console := console st @ [''Database or User ID not ready.'']\<rparr>
         else if \<not> timestampAccepts rt (newDate rt (Str (appliedDate (newJob st)))) then st
         else if oc = Thrown then st\<lparr>console := console st @ [''Error adding job:'']\<rparr>
         else
           let st1 = st\<lparr>calls := calls st @ [AddDoc (collectionPath g uid) (jobToAdd rt now (newJob st))]\<rparr>
           in if oc = Resolved then st1\<lparr>newJob := initialNewJob today, showAddModal := False\<rparr>
              else st1\<lparr>console := console st1 @ [''Error adding job:'']\<rparr>
     | _ \<Rightarrow> st\<lparr>console := console st @ [''Database or User ID not ready.'']\<rparr>)"

definition handleDeleteJob :: "globals \<Rightarrow> string \<Rightarrow> bool \<Rightarrow> outcome \<Rightarrow> app_state \<Rightarrow> app_state" where
  "handleDeleteJob g ident confirmed oc st =
    (case (db st, userId st) of
       (Some d, Some uid) \<Rightarrow>
         if noUser (Some uid) then st
         else
           let st1 = st\<lparr>prompts := prompts st @ [''Are you sure you want to delete this job application?'']\<rparr>
           in if \<not> confirmed then st1
              else if oc = Thrown then st1\<lparr>console := console st1 @ [''Error deleting job:'']\<rparr>
              else
                let st2 = st1\<lparr>calls := calls st1 @ [DeleteDoc (docPath (collectionPath g uid) ident)]\<rparr>
                in if oc = Resolved then st2
                   else st2\<lparr>console := console st2 @ [''Error deleting job:'']\<rparr>
     | _ \<Rightarrow> st)"

definition handleUpdateStatus :: "globals \<Rightarrow> string \<Rightarrow> jsval \<Rightarrow> outcome \<Rightarrow> app_state \<Rightarrow> app_state" where
  "handleUpdateStatus g jobId newStatus oc st =
    (case (db st, userId st) of
       (Some d, Some uid) \<Rightarrow>
         if noUser (Some uid) \<or> \<not> truthy newStatus then st
         else if oc = Thrown then st\<lparr>console := console st @ [''Error updating status:'']\<rparr>
         else
           let st1 = st\<lparr>calls := calls st @
                       [UpdateDoc (docPath (collectionPath g uid) jobId) [(''status'', newStatus)]]\<rparr>
           in if oc = Resolved then st1
              else st1\<lparr>console := console st1 @ [''Error updating status:'']\<rparr>
     | _ \<Rightarrow> st)"

text \<open>
  The form of \<^verbatim>\<open>AddJobModal\<close> calls \<^verbatim>\<open>handleAddJob\<close> from \<^verbatim>\<open>onSubmit\<close>. The inputs
  \<^verbatim>\<open>company\<close>, \<^verbatim>\<open>title\<close> and \<^verbatim>\<open>date\<close> carry the attribute \<^verbatim>\<open>required\<close> and
  \<^verbatim>\<open>postingLink\<close> has \<^verbatim>\<open>type="url"\<close>: the browser fires the submit event only when the
  required values are not empty and the link is empty or a URL. The values it tests are
  those of the inputs: a text input holds the string React gives it, the date input
  (\<^verbatim>\<open>type="date" value={newJob.appliedDate}\<close>) holds that string only when it is a date
  and the empty value otherwise.
\<close>

definition dateInputValue :: "runtime \<Rightarrow> string \<Rightarrow> string" where
  "dateInputValue rt s = (if isDateString rt s then s else [])"

definition formValid :: "runtime \<Rightarrow> new_job \<Rightarrow> bool" where
  "formValid rt nj =
    (company nj \<noteq> [] \<and> title nj \<noteq> [] \<and> dateInputValue rt (appliedDate nj) \<noteq> []
     \<and> (postingLink nj = [] \<or> isValidURL rt (postingLink nj)))"

definition submitAddForm :: "runtime \<Rightarrow> globals \<Rightarrow> int \<Rightarrow> string \<Rightarrow> outcome \<Rightarrow> app_state \<Rightarrow> app_state" where
  "submitAddForm rt g now today oc st =
    (if formValid rt (newJob st) then handleAddJob rt g now today oc st else st)"

section \<open>The component as a transition system\<close>

text \<open>The \<^verbatim>\<open>onChange\<close> handlers of the form: \<^verbatim>\<open>setNewJob({ ...newJob, field: e.target.value })\<close>.\<close>

datatype field = Company | Title | Status | AppliedDate | Notes | PostingLink | DocumentsUsed

fun setField :: "field \<Rightarrow> string \<Rightarrow> new_job \<Rightarrow> new_job" where
  "setField Company v nj = nj\<lparr>company := v\<rparr>"
| "setField Title v nj = nj\<lparr>title := v\<rparr>"
| "setField Status v nj = nj\<lparr>status := v\<rparr>"
| "setField AppliedDate v nj = nj\<lparr>appliedDate := v\<rparr>"
| "setField Notes v nj = nj\<lparr>notes' := v\<rparr>"
| "setField PostingLink v nj = nj\<lparr>postingLink := v\<rparr>"
| "setField DocumentsUsed v nj = nj\<lparr>documentsUsed := v\<rparr>"

text \<open>
  What can happen to the mounted component.
  \<^item> \<open>SignInRejected\<close>: the awaited sign-in promise rejects and \<^verbatim>\<open>catch\<close> logs it.
  \<^item> \<open>AuthStateChanged user uuid\<close>: the identity listener is called with a user of that
    \<^verbatim>\<open>uid\<close>, or with no user; \<open>uuid\<close> is what \<^verbatim>\<open>crypto.randomUUID()\<close> returns if called.
  \<^item> \<open>Snapshot docs\<close>, \<open>SnapshotError\<close>: the two callbacks of the live subscription.
  \<^item> \<open>Edit\<close>, \<open>OpenAddModal\<close>, \<open>CloseAddModal\<close>: form and modal state.
  \<^item> \<open>SubmitForm\<close>: the form is submitted (the browser validates first);
    \<open>AddJob\<close>: \<^verbatim>\<open>handleAddJob\<close> is invoked without that validation.
  \<^item> \<open>DeleteJob\<close>, \<open>UpdateStatus\<close>: the two other handlers are invoked.
  The listener events are delivered only while their listener is registered. The handler
  events may come at any time, also while the component shows nothing to click on.
  Unmounting is not part of the model.
\<close>

datatype event =
    SignInRejected
  | AuthStateChanged "string option" string
  | Snapshot "snapdoc list"
  | SnapshotError
  | Edit field string
  | OpenAddModal
  | CloseAddModal
  | SubmitForm int string outcome
  | AddJob int string outcome
  | DeleteJob string bool outcome
  | UpdateStatus string jsval outcome

fun step :: "runtime \<Rightarrow> globals \<Rightarrow> app_state \<Rightarrow> event \<Rightarrow> app_state" where
  "step rt g st SignInRejected =
     (if authListener st then st\<lparr>console := console st @ [''Firebase Auth failed:'']\<rparr> else st)"
| "step rt g st (AuthStateChanged user uuid) =
     (if authListener st
      then rerender g st
             (case user of
                Some uid \<Rightarrow> st\<lparr>userId := Some uid\<rparr>
              | None \<Rightarrow> st\<lparr>userId := Some uuid\<rparr>)
      else st)"
| "step rt g st (Snapshot docs) =
     (if subscription st \<noteq> None then snapshotCallback rt docs st else st)"
| "step rt g st SnapshotError =
     (if subscription st \<noteq> None then snapshotErrorCallback st else st)"
| "step rt g st (Edit f v) = st\<lparr>newJob := setField f v (newJob st)\<rparr>"
| "step rt g st OpenAddModal = st\<lparr>showAddModal := True\<rparr>"
| "step rt g st CloseAddModal = st\<lparr>showAddModal := False\<rparr>"
| "step rt g st (SubmitForm now today oc) = submitAddForm rt g now today oc st"
| "step rt g st (AddJob now today oc) = handleAddJob rt g now today oc st"
| "step rt g st (DeleteJob ident confirmed oc) = handleDeleteJob g ident confirmed oc st"
| "step rt g st (UpdateStatus jobId newStatus oc) = handleUpdateStatus g jobId newStatus oc st"

text \<open>
  Mounting runs both effects with the cells of the first render: the second effect sees
  \<open>db\<close> and \<open>userId\<close> both \<^verbatim>\<open>null\<close> and returns. The cells set by the first effect cause
  a new render, after which the second effect runs again if a dependency changed.
\<close>

definition mount :: "globals \<Rightarrow> string \<Rightarrow> app_state" where
  "mount g today =
    (let st0 = subscriptionEffect g (initialState today); st1 = initEffect g st0
     in rerender g st0 st1)"

definition run :: "runtime \<Rightarrow> globals \<Rightarrow> string \<Rightarrow> event list \<Rightarrow> app_state" where
  "run rt g today evs = foldl (step rt g) (mount g today) evs"

fun isAuthEvent :: "event \<Rightarrow> bool" where
  "isAuthEvent (AuthStateChanged user uuid) = True"
| "isAuthEvent e = False"

section \<open>The document store\<close>

text \<open>The stored documents, by document path.\<close>

type_synonym store = "string \<rightharpoonup> obj"

text \<open>
  Modelled from the spec: the Document Store itself (Firestore) is a hosted service, of which
  the repository holds only the calls. Section 6 gives \<^verbatim>\<open>update(documentPath, partialFields)\<close>
  and Section 4.3 a "partial write": the named fields of an existing document are
  overwritten and nothing else; a path with no document is not written.
\<close>

definition storeUpdate :: "store \<Rightarrow> string \<Rightarrow> (string \<times> jsval) list \<Rightarrow> store" where
  "storeUpdate s p fs = (case s p of None \<Rightarrow> s | Some d \<Rightarrow> s(p \<mapsto> d ++ map_of fs))"

text \<open>
  Modelled from the spec: what a call does to the store, \<^verbatim>\<open>update\<close> as above and
  \<^verbatim>\<open>delete(documentPath)\<close> of Section 6 removing the document. \<^verbatim>\<open>add\<close>, whose new
  document id the store chooses, and the calls that write nothing are left as the identity.
\<close>

fun applyCall :: "store \<Rightarrow> call \<Rightarrow> store" where
  "applyCall s (UpdateDoc p fs) = storeUpdate s p fs"
| "applyCall s (DeleteDoc p) = s(p := None)"
| "applyCall s c = s"

section \<open>Values for concrete runs\<close>

text \<open>
  A runtime for evaluating the model on the dates of the examples. The time values are
  those of ECMAScript's \<^verbatim>\<open>Date\<close> for these date-only strings (midnight UTC); every
  other value is taken as unparsable. \<open>exampleISO\<close> gives the UTC date of a time that falls
  on one of the three days of 2024 (day 19732 since the epoch is 2024-01-10); the examples
  use no other time. \<open>exampleDateString\<close> knows the four strings as dates, which they are
  for HTML, and no other string. \<open>exampleAccepts\<close> is the range check of the SDK's
  \<^verbatim>\<open>Timestamp\<close> on the seconds: from the year 1 up to, not including, the year 10000;
  an Invalid Date is taken to pass (\<^verbatim>\<open>NaN\<close> fails no comparison), and no example
  depends on that.
\<close>

definition exampleDate :: "jsval \<Rightarrow> int option" where
  "exampleDate v =
    (if v = Str ''2024-01-10'' then Some 1704844800000
     else if v = Str ''2024-03-05'' then Some 1709596800000
     else if v = Str ''2024-05-01'' then Some 1714521600000
     else if v = Str ''10000-01-01'' then Some 253402300800000
     else None)"

definition exampleISO :: "int \<Rightarrow> string" where
  "exampleISO ms =
    (if ms div 86400000 = 19732 then ''2024-01-10''
     else if ms div 86400000 = 19787 then ''2024-03-05''
     else if ms div 86400000 = 19844 then ''2024-05-01''
     else ''1970-01-01'')"

definition exampleDateString :: "string \<Rightarrow> bool" where
  "exampleDateString s =
    (s = ''2024-01-10'' \<or> s = ''2024-03-05'' \<or> s = ''2024-05-01'' \<or> s = ''10000-01-01'')"

definition exampleAccepts :: "int option \<Rightarrow> bool" where
  "exampleAccepts t =
    (case t of
       None \<Rightarrow> True
     | Some ms \<Rightarrow> - 62135596800 \<le> ms div 1000 \<and> ms div 1000 < 253402300800)"

definition exampleRuntime :: runtime where
  "exampleRuntime =
    \<lparr>newDate = exampleDate, toISODate = exampleISO, isValidURL = (\<lambda>u. take 4 u = ''http''),
     isDateString = exampleDateString, timestampAccepts = exampleAccepts\<rparr>"

definition exampleGlobals :: globals where
  "exampleGlobals =
    \<lparr>app_id_global = Some ''tracker'', firebase_config_global = Some [(''projectId'', Str ''demo'')],
     initial_auth_token_global = None\<rparr>"

definition noConfigGlobals :: globals where
  "noConfigGlobals =
    \<lparr>app_id_global = None, firebase_config_global = None, initial_auth_token_global = None\<rparr>"

text \<open>Four documents: a date stored as a string, no date at all, a date stored as a
  Timestamp (2024-03-05, noon UTC), and a document with a stored field named \<^verbatim>\<open>id\<close>.\<close>

definition docJan :: snapdoc where
  "docJan = \<lparr>doc_id = ''a'', doc_data = [''company'' \<mapsto> Str ''Acme'', ''appliedDate'' \<mapsto> Str ''2024-01-10'']\<rparr>"

definition docNoDate :: snapdoc where
  "docNoDate = \<lparr>doc_id = ''i'', doc_data = [''company'' \<mapsto> Str ''Initech'']\<rparr>"

definition docMar :: snapdoc where
  "docMar = \<lparr>doc_id = ''c'', doc_data = [''company'' \<mapsto> Str ''Cyberdyne'', ''appliedDate'' \<mapsto> Timestamp 1709640000000]\<rparr>"

definition docShadow :: snapdoc where
  "docShadow = \<lparr>doc_id = ''s'', doc_data = [''id'' \<mapsto> Str ''other'', ''appliedDate'' \<mapsto> Str ''2024-05-01'']\<rparr>"

text \<open>The component after mounting with a configuration and an identity event for the
  user \<^verbatim>\<open>u1\<close>.\<close>

definition readyState :: app_state where
  "readyState = run exampleRuntime exampleGlobals ''2024-05-01'' [AuthStateChanged (Some ''u1'') ''uuid-1'']"

text \<open>The same after the first snapshot (an empty collection), so that the list and the
  button are on the screen, and with the modal opened: the form is shown, still empty.\<close>

definition formState :: app_state where
  "formState = run exampleRuntime exampleGlobals ''2024-05-01''
     [AuthStateChanged (Some ''u1'') ''uuid-1'', Snapshot [], OpenAddModal]"

text \<open>The same, with the form filled in for Acme.\<close>

definition acmeState :: app_state where
  "acmeState = run exampleRuntime exampleGlobals ''2024-05-01''
     [AuthStateChanged (Some ''u1'') ''uuid-1'', Snapshot [], OpenAddModal, Edit Company ''Acme'',
      Edit Title ''Engineer'']"

text \<open>The same, with a date of the year 10000, which the date input takes.\<close>

definition farState :: app_state where
  "farState = run exampleRuntime exampleGlobals ''2024-05-01''
     [AuthStateChanged (Some ''u1'') ''uuid-1'', Snapshot [], OpenAddModal, Edit Company ''Acme'',
      Edit Title ''Engineer'', Edit AppliedDate ''10000-01-01'']"

text \<open>The same, with a string in the form's state that is not a date: only a browser
  without a date input, or a script, puts it there.\<close>

definition soonState :: app_state where
  "soonState = run exampleRuntime exampleGlobals ''2024-05-01''
     [AuthStateChanged (Some ''u1'') ''uuid-1'', Snapshot [], OpenAddModal, Edit Company ''Acme'',
      Edit Title ''Engineer'', Edit AppliedDate ''soon'']"

text \<open>A store holding one document of that user.\<close>

definition exampleStore :: store where
  "exampleStore =
    [''artifacts/tracker/users/u1/jobApplications/x'' \<mapsto>
       [''company'' \<mapsto> Str ''Acme'', ''status'' \<mapsto> Str ''Applied'']]"

section \<open>Notions the properties are stated with\<close>

text \<open>The SDK calls made between two states.\<close>

definition issued :: "app_state \<Rightarrow> app_state \<Rightarrow> call list" where
  "issued st st' = drop (length (calls st)) (calls st')"

text \<open>The time value of a mirrored record's \<^verbatim>\<open>appliedDate\<close>, and a list in which no record
  with a parsable date comes before one with a later parsable date.\<close>

definition dateOf :: "runtime \<Rightarrow> obj \<Rightarrow> int option" where
  "dateOf rt j = newDate rt (getProp j ''appliedDate'')"

definition laterFirst :: "runtime \<Rightarrow> obj \<Rightarrow> obj \<Rightarrow> bool" where
  "laterFirst rt a b = (case (dateOf rt a, dateOf rt b) of (Some ta, Some tb) \<Rightarrow> tb \<le> ta | _ \<Rightarrow> True)"

definition descendingByDate :: "runtime \<Rightarrow> obj list \<Rightarrow> bool" where
  "descendingByDate rt js = sorted_wrt (laterFirst rt) js"

text \<open>The value of a field of a stored document.\<close>

definition fieldOf :: "store \<Rightarrow> string \<Rightarrow> string \<Rightarrow> jsval option" where
  "fieldOf s p k = (case s p of None \<Rightarrow> None | Some d \<Rightarrow> d k)"

fun choosesStatus :: "event \<Rightarrow> bool" where
  "choosesStatus (Edit Status v) = True"
| "choosesStatus e = False"

section \<open>The status display helper is total\<close>

text \<open>
  C5. \<open>getStatusColor\<close> is a function of its argument alone and returns a style for every
  value, strings inside and outside the enumeration, \<^verbatim>\<open>null\<close> and \<^verbatim>\<open>undefined\<close> included:
  the result is the colour of one of the five options or the neutral grey style, and it is
  the neutral grey style for every value that is not one of the five status names.
\<close>

theorem getStatusColor_total:
  "getStatusColor v \<in> set (map opt_color STATUS_OPTIONS) \<union> {''bg-gray-100 text-gray-800''}
   \<and> (v \<notin> set (map (\<lambda>opt. Str (opt_value opt)) STATUS_OPTIONS)
        \<longrightarrow> getStatusColor v = ''bg-gray-100 text-gray-800'')"
  by (simp add: getStatusColor_def STATUS_OPTIONS_def)

theorem getStatusColor_total_witness:
  "(getStatusColor (Str ''Offer'') \<in> set (map opt_color STATUS_OPTIONS) \<union> {''bg-gray-100 text-gray-800''}
    \<and> getStatusColor (Str ''Offer'') = ''bg-green-100 text-green-800'')
   \<and> Undefined \<notin> set (map (\<lambda>opt. Str (opt_value opt)) STATUS_OPTIONS)
   \<and> getStatusColor Undefined = ''bg-gray-100 text-gray-800''
   \<and> Str ''Ghosted'' \<notin> set (map (\<lambda>opt. Str (opt_value opt)) STATUS_OPTIONS)
   \<and> getStatusColor (Str ''Ghosted'') = ''bg-gray-100 text-gray-800''"
  using getStatusColor_total [of "Str ''Offer''"] getStatusColor_total [of Undefined]
    getStatusColor_total [of "Str ''Ghosted''"]
  by (simp add: getStatusColor_def STATUS_OPTIONS_def)

section \<open>The example states\<close>

lemma readyState_simps:
  "db readyState = Some [(''projectId'', Str ''demo'')]"
  "userId readyState = Some ''u1''"
  "newJob readyState = initialNewJob ''2024-05-01''"
  "subscription readyState = Some ''artifacts/tracker/users/u1/jobApplications''"
  "console readyState = []"
  "calls readyState =
     [SetLogLevel ''Debug'', InitializeApp [(''projectId'', Str ''demo'')], SignInAnonymously,
      OnAuthStateChanged, OnSnapshot ''artifacts/tracker/users/u1/jobApplications'']"
  by (simp_all add: readyState_def run_def mount_def initialState_def initEffect_def
      subscriptionEffect_def rerender_def firebaseConfig_def exampleGlobals_def noUser_def
      initialAuthToken_def collectionPath_def appId_def Let_def)

lemma formState_simps:
  "db formState = Some [(''projectId'', Str ''demo'')]"
  "userId formState = Some ''u1''"
  "newJob formState = initialNewJob ''2024-05-01''"
  "loading formState = False"
  "showAddModal formState = True"
  by (simp_all add: formState_def run_def mount_def initialState_def initEffect_def
      subscriptionEffect_def rerender_def firebaseConfig_def exampleGlobals_def noUser_def
      initialAuthToken_def collectionPath_def appId_def Let_def snapshotCallback_def)

lemma acmeState_simps:
  "db acmeState = Some [(''projectId'', Str ''demo'')]"
  "userId acmeState = Some ''u1''"
  "newJob acmeState =
     \<lparr>company = ''Acme'', title = ''Engineer'', status = ''Applied'', appliedDate = ''2024-05-01'',
      notes' = '''', postingLink = '''', documentsUsed = ''''\<rparr>"
  by (simp_all add: acmeState_def run_def mount_def initialState_def initEffect_def
      subscriptionEffect_def rerender_def firebaseConfig_def exampleGlobals_def noUser_def
      initialAuthToken_def collectionPath_def appId_def Let_def initialNewJob_def
      snapshotCallback_def)

lemma farState_simps:
  "db farState = Some [(''projectId'', Str ''demo'')]"
  "userId farState = Some ''u1''"
  "newJob farState =
     \<lparr>company = ''Acme'', title = ''Engineer'', status = ''Applied'', appliedDate = ''10000-01-01'',
      notes' = '''', postingLink = '''', documentsUsed = ''''\<rparr>"
  by (simp_all add: farState_def run_def mount_def initialState_def initEffect_def
      subscriptionEffect_def rerender_def firebaseConfig_def exampleGlobals_def noUser_def
      initialAuthToken_def collectionPath_def appId_def Let_def initialNewJob_def
      snapshotCallback_def)

lemma soonState_simps:
  "db soonState = Some [(''projectId'', Str ''demo'')]"
  "userId soonState = Some ''u1''"
  "newJob soonState =
     \<lparr>company = ''Acme'', title = ''Engineer'', status = ''Applied'', appliedDate = ''soon'',
      notes' = '''', postingLink = '''', documentsUsed = ''''\<rparr>"
  by (simp_all add: soonState_def run_def mount_def initialState_def initEffect_def
      subscriptionEffect_def rerender_def firebaseConfig_def exampleGlobals_def noUser_def
      initialAuthToken_def collectionPath_def appId_def Let_def initialNewJob_def
      snapshotCallback_def)

section \<open>The sort keeps the elements\<close>

lemma mset_sortInsert: "mset (sortInsert f x ys) = add_mset x (mset ys)"
  by (induction ys) auto

lemma mset_arraySort: "mset (arraySort f xs) = mset xs"
  unfolding arraySort_def by (induction xs) (auto simp: mset_sortInsert)

section \<open>The mirrored record's id\<close>

text \<open>
  C10. A document whose stored fields have no key \<^verbatim>\<open>id\<close> is mirrored with \<^verbatim>\<open>id\<close> equal to
  the store's document id; a stored field named \<^verbatim>\<open>id\<close> is spread after it and takes its
  place. The mirrored list holds exactly these records, one for each document.
\<close>

theorem mirror_id:
  "(doc_data d ''id'' = None \<longrightarrow> getProp (toJob rt d) ''id'' = Str (doc_id d))
   \<and> (doc_data d ''id'' = Some v \<longrightarrow> getProp (toJob rt d) ''id'' = v)
   \<and> mset (jobs (snapshotCallback rt docs st)) = mset (map (toJob rt) docs)"
  by (simp add: toJob_def getProp_def map_add_def snapshotCallback_def mset_arraySort)

theorem mirror_id_witness:
  "doc_data docJan ''id'' = None \<and> getProp (toJob exampleRuntime docJan) ''id'' = Str ''a''
   \<and> doc_data docShadow ''id'' = Some (Str ''other'') \<and> doc_id docShadow = ''s''
   \<and> getProp (toJob exampleRuntime docShadow) ''id'' = Str ''other''"
  using mirror_id [where d = docJan and rt = exampleRuntime]
    mirror_id [where d = docShadow and v = "Str ''other''" and rt = exampleRuntime]
  by (simp add: docJan_def docShadow_def)

section \<open>Delete\<close>

text \<open>
  C4. \<open>handleDeleteJob\<close> issues a call only when the store handle is set, the user identifier
  is set and not empty, and the answer to the confirmation is affirmative; the call is then
  the one \<^verbatim>\<open>deleteDoc\<close> of the document (unless the SDK refuses the path before it).
  In every other case it issues no call.
\<close>

theorem delete_needs_confirmation:
  "issued st (handleDeleteJob g ident confirmed oc st) =
     (case (db st, userId st) of
        (Some d, Some uid) \<Rightarrow>
          if uid \<noteq> [] \<and> confirmed \<and> oc \<noteq> Thrown
          then [DeleteDoc (docPath (collectionPath g uid) ident)] else []
      | _ \<Rightarrow> [])"
  by (simp add: issued_def handleDeleteJob_def noUser_def Let_def split: option.splits)

theorem delete_needs_confirmation_witness:
  "issued readyState (handleDeleteJob exampleGlobals ''x'' True Resolved readyState)
     = [DeleteDoc ''artifacts/tracker/users/u1/jobApplications/x'']
   \<and> issued readyState (handleDeleteJob exampleGlobals ''x'' False Resolved readyState) = []
   \<and> issued (initialState ''2024-05-01'')
        (handleDeleteJob exampleGlobals ''x'' True Resolved (initialState ''2024-05-01'')) = []"
  using delete_needs_confirmation [where st = readyState and g = exampleGlobals and ident = "''x''"
        and confirmed = True and oc = Resolved]
    delete_needs_confirmation [where st = readyState and g = exampleGlobals and ident = "''x''"
        and confirmed = False and oc = Resolved]
    delete_needs_confirmation [where st = "initialState ''2024-05-01''" and g = exampleGlobals
        and ident = "''x''" and confirmed = True and oc = Resolved]
  by (simp add: readyState_simps initialState_def docPath_def collectionPath_def appId_def
      exampleGlobals_def)

section \<open>UpdateStatus\<close>

text \<open>
  C3, as the code has it. \<open>handleUpdateStatus\<close> returns without a call and without a log
  entry (the state is unchanged) when the store handle or the user identifier is missing or
  \<open>newStatus\<close> is falsy (empty, \<^verbatim>\<open>undefined\<close>, \<^verbatim>\<open>null\<close>). Every other \<open>newStatus\<close> is
  written, whether or not it belongs to the enumeration (unless the SDK refuses the path).
\<close>

theorem updateStatus_guard:
  "(db st = None \<or> noUser (userId st) \<or> \<not> truthy newStatus
      \<longrightarrow> handleUpdateStatus g jobId newStatus oc st = st)
   \<and> (db st \<noteq> None \<and> userId st = Some uid \<and> uid \<noteq> [] \<and> truthy newStatus \<and> oc \<noteq> Thrown
      \<longrightarrow> issued st (handleUpdateStatus g jobId newStatus oc st)
            = [UpdateDoc (docPath (collectionPath g uid) jobId) [(''status'', newStatus)]])"
  by (auto simp add: issued_def handleUpdateStatus_def noUser_def Let_def split: option.splits)

theorem updateStatus_guard_witness:
  "\<not> truthy Undefined \<and> handleUpdateStatus exampleGlobals ''x'' Undefined Resolved readyState = readyState
   \<and> \<not> truthy (Str '''') \<and> handleUpdateStatus exampleGlobals ''x'' (Str '''') Resolved readyState = readyState
   \<and> issued readyState (handleUpdateStatus exampleGlobals ''x'' (Str ''Offer'') Resolved readyState)
        = [UpdateDoc ''artifacts/tracker/users/u1/jobApplications/x'' [(''status'', Str ''Offer'')]]"
  using updateStatus_guard [where st = readyState and newStatus = Undefined and g = exampleGlobals
        and jobId = "''x''" and oc = Resolved]
    updateStatus_guard [where st = readyState and newStatus = "Str ''''" and g = exampleGlobals
        and jobId = "''x''" and oc = Resolved]
    updateStatus_guard [where st = readyState and newStatus = "Str ''Offer''" and uid = "''u1''"
        and g = exampleGlobals and jobId = "''x''" and oc = Resolved]
  by (simp add: readyState_simps docPath_def collectionPath_def appId_def exampleGlobals_def)

text \<open>The claim as stated fails: a status outside the enumeration is written.\<close>

theorem updateStatus_outside_enumeration:
  "Str ''Ghosted'' \<notin> set (map (\<lambda>opt. Str (opt_value opt)) STATUS_OPTIONS)
   \<and> issued readyState (handleUpdateStatus exampleGlobals ''x'' (Str ''Ghosted'') Resolved readyState)
        = [UpdateDoc ''artifacts/tracker/users/u1/jobApplications/x'' [(''status'', Str ''Ghosted'')]]"
  by (simp add: STATUS_OPTIONS_def issued_def handleUpdateStatus_def readyState_simps noUser_def
      docPath_def collectionPath_def appId_def exampleGlobals_def)

text \<open>
  C9. Every call \<open>handleUpdateStatus\<close> issues is an \<^verbatim>\<open>updateDoc\<close> on the document
  \<^verbatim>\<open>.../jobApplications/{jobId}\<close> of the current user with the single field
  \<^verbatim>\<open>status: newStatus\<close>, and there is at most one. Applied to a store, such a call changes
  no other field of that document and no field of another document, and neither creates
  nor removes a document.
\<close>

theorem updateStatus_partial_write:
  "(\<forall>c \<in> set (issued st (handleUpdateStatus g jobId newStatus oc st)).
      \<exists>uid. userId st = Some uid
        \<and> c = UpdateDoc (docPath (collectionPath g uid) jobId) [(''status'', newStatus)]
        \<and> (\<forall>s p k. p \<noteq> docPath (collectionPath g uid) jobId \<or> k \<noteq> ''status''
              \<longrightarrow> fieldOf (applyCall s c) p k = fieldOf s p k)
        \<and> (\<forall>s. dom (applyCall s c) = dom s))
   \<and> length (issued st (handleUpdateStatus g jobId newStatus oc st)) \<le> 1"
  by (auto simp add: issued_def handleUpdateStatus_def noUser_def Let_def fieldOf_def storeUpdate_def
      map_add_def split: option.splits)

theorem updateStatus_partial_write_witness:
  "issued readyState (handleUpdateStatus exampleGlobals ''x'' (Str ''Offer'') Resolved readyState)
     = [UpdateDoc ''artifacts/tracker/users/u1/jobApplications/x'' [(''status'', Str ''Offer'')]]
   \<and> fieldOf (applyCall exampleStore
          (UpdateDoc ''artifacts/tracker/users/u1/jobApplications/x'' [(''status'', Str ''Offer'')]))
        ''artifacts/tracker/users/u1/jobApplications/x'' ''company'' = Some (Str ''Acme'')
   \<and> fieldOf (applyCall exampleStore
          (UpdateDoc ''artifacts/tracker/users/u1/jobApplications/x'' [(''status'', Str ''Offer'')]))
        ''artifacts/tracker/users/u1/jobApplications/x'' ''status'' = Some (Str ''Offer'')"
  using updateStatus_partial_write [where st = readyState and g = exampleGlobals and jobId = "''x''"
      and newStatus = "Str ''Offer''" and oc = Resolved]
  by (simp add: issued_def handleUpdateStatus_def readyState_simps noUser_def docPath_def
      collectionPath_def appId_def exampleGlobals_def fieldOf_def storeUpdate_def exampleStore_def)

section \<open>Add\<close>

lemma status_step:
  "\<not> choosesStatus e \<Longrightarrow> status (newJob st) = ''Applied''
   \<Longrightarrow> status (newJob (step rt g st e)) = ''Applied''"
  apply (cases e)
  apply (auto simp add: rerender_def subscriptionEffect_def snapshotCallback_def
      snapshotErrorCallback_def submitAddForm_def handleAddJob_def handleDeleteJob_def
      handleUpdateStatus_def initialNewJob_def Let_def split: option.splits)
  subgoal for f v by (cases f) auto
  done

lemma status_foldl:
  "\<forall>e\<in>set evs. \<not> choosesStatus e \<Longrightarrow> status (newJob st) = ''Applied''
   \<Longrightarrow> status (newJob (foldl (step rt g) st evs)) = ''Applied''"
  by (induction evs arbitrary: st) (auto simp: status_step)

lemma status_mount: "status (newJob (mount g today)) = ''Applied''"
  by (simp add: mount_def initialState_def initEffect_def subscriptionEffect_def rerender_def
      initialNewJob_def Let_def split: option.splits)

lemma status_run:
  "\<forall>e\<in>set evs. \<not> choosesStatus e \<Longrightarrow> status (newJob (run rt g today evs)) = ''Applied''"
  unfolding run_def by (rule status_foldl) (auto simp: status_mount)

text \<open>
  C8. With the store handle set, a user identifier resolved and a date that
  \<^verbatim>\<open>Timestamp.fromDate\<close> accepts, every Add that gets as far as the write, as every
  successful Add does, issues exactly one call, \<^verbatim>\<open>addDoc\<close> on
  \<^verbatim>\<open>artifacts/{appId}/users/{userId}/jobApplications\<close>; the record carries the form's status
  and \<^verbatim>\<open>createdAt\<close> is the time of the call. The form's status is \<^verbatim>\<open>Applied\<close> in every
  run in which the status select was not changed.
\<close>

theorem add_issues_one_call:
  "(db st \<noteq> None \<and> userId st = Some uid \<and> uid \<noteq> []
      \<and> timestampAccepts rt (newDate rt (Str (appliedDate (newJob st)))) \<and> oc \<noteq> Thrown
      \<longrightarrow> issued st (handleAddJob rt g now today' oc st)
            = [AddDoc (''artifacts/'' @ appId g @ ''/users/'' @ uid @ ''/jobApplications'')
                 (jobToAdd rt now (newJob st))]
          \<and> add_createdAt (jobToAdd rt now (newJob st)) = now
          \<and> add_status (jobToAdd rt now (newJob st)) = status (newJob st))
   \<and> ((\<forall>e\<in>set evs. \<not> choosesStatus e) \<longrightarrow> status (newJob (run rt g today evs)) = ''Applied'')"
  using status_run [of evs rt g today]
  by (auto simp add: issued_def handleAddJob_def noUser_def Let_def jobToAdd_def collectionPath_def
      split: option.splits)

theorem add_issues_one_call_witness:
  "db acmeState \<noteq> None \<and> userId acmeState = Some ''u1''
   \<and> timestampAccepts exampleRuntime (newDate exampleRuntime (Str (appliedDate (newJob acmeState))))
   \<and> issued acmeState (handleAddJob exampleRuntime exampleGlobals 1714557600000 ''2024-05-01'' Resolved acmeState)
      = [AddDoc ''artifacts/tracker/users/u1/jobApplications''
           \<lparr>add_company = ''Acme'', add_title = ''Engineer'', add_status = ''Applied'',
            add_appliedDate = Some 1714521600000, add_notes = '''', add_postingLink = '''',
            add_documentsUsed = '''', add_createdAt = 1714557600000\<rparr>]
   \<and> status (newJob acmeState) = ''Applied''"
  using add_issues_one_call [where st = acmeState and rt = exampleRuntime and g = exampleGlobals
      and today = "''2024-05-01''"
      and evs = "[AuthStateChanged (Some ''u1'') ''uuid-1'', Snapshot [], OpenAddModal,
        Edit Company ''Acme'', Edit Title ''Engineer'']"
      and uid = "''u1''" and now = 1714557600000 and today' = "''2024-05-01''" and oc = Resolved]
  by (simp add: acmeState_simps jobToAdd_def appId_def exampleGlobals_def exampleRuntime_def
      exampleDate_def exampleAccepts_def)

text \<open>
  C2, as the code has it. Submitting the form with \<^verbatim>\<open>company\<close> or \<^verbatim>\<open>title\<close> empty, or
  with an \<^verbatim>\<open>appliedDate\<close> that is not a date (the date input then holds the empty value),
  changes nothing, so no call is issued: the inputs are \<^verbatim>\<open>required\<close> and the handler is
  not run. \<open>handleAddJob\<close> itself checks the store handle and the user identifier only:
  without one of them it logs and issues no call; with both, it ends with no call and no
  log entry when \<^verbatim>\<open>Timestamp.fromDate\<close> refuses the date, and otherwise goes on to the
  \<^verbatim>\<open>addDoc\<close> whatever company and title hold (unless the SDK refuses the path).
\<close>

theorem add_guards:
  "(company (newJob st) = [] \<or> title (newJob st) = [] \<or> \<not> isDateString rt (appliedDate (newJob st))
      \<longrightarrow> submitAddForm rt g now today oc st = st)
   \<and> (db st = None \<or> noUser (userId st)
      \<longrightarrow> issued st (handleAddJob rt g now today oc st) = []
          \<and> console (handleAddJob rt g now today oc st) = console st @ [''Database or User ID not ready.''])
   \<and> (db st \<noteq> None \<and> userId st = Some uid \<and> uid \<noteq> []
        \<and> \<not> timestampAccepts rt (newDate rt (Str (appliedDate (newJob st))))
      \<longrightarrow> handleAddJob rt g now today oc st = st)
   \<and> (db st \<noteq> None \<and> userId st = Some uid \<and> uid \<noteq> []
        \<and> timestampAccepts rt (newDate rt (Str (appliedDate (newJob st)))) \<and> oc \<noteq> Thrown
      \<longrightarrow> issued st (handleAddJob rt g now today oc st)
            = [AddDoc (collectionPath g uid) (jobToAdd rt now (newJob st))])"
  by (auto simp add: submitAddForm_def formValid_def dateInputValue_def issued_def handleAddJob_def
      noUser_def Let_def split: option.splits)

theorem add_guards_witness:
  "company (newJob formState) = []
   \<and> submitAddForm exampleRuntime exampleGlobals 5 ''2024-05-01'' Resolved formState = formState
   \<and> \<not> isDateString exampleRuntime (appliedDate (newJob soonState))
   \<and> submitAddForm exampleRuntime exampleGlobals 5 ''2024-05-01'' Resolved soonState = soonState
   \<and> db (initialState ''2024-05-01'') = None
   \<and> issued (initialState ''2024-05-01'')
        (handleAddJob exampleRuntime exampleGlobals 5 ''2024-05-01'' Resolved (initialState ''2024-05-01'')) = []
   \<and> db farState \<noteq> None \<and> userId farState = Some ''u1''
   \<and> \<not> timestampAccepts exampleRuntime (newDate exampleRuntime (Str (appliedDate (newJob farState))))
   \<and> handleAddJob exampleRuntime exampleGlobals 5 ''2024-05-01'' Resolved farState = farState
   \<and> db acmeState \<noteq> None \<and> userId acmeState = Some ''u1''
   \<and> timestampAccepts exampleRuntime (newDate exampleRuntime (Str (appliedDate (newJob acmeState))))
   \<and> issued acmeState (handleAddJob exampleRuntime exampleGlobals 5 ''2024-05-01'' Resolved acmeState)
        = [AddDoc ''artifacts/tracker/users/u1/jobApplications''
             (jobToAdd exampleRuntime 5 (newJob acmeState))]"
  using add_guards [where st = formState and rt = exampleRuntime and g = exampleGlobals and now = 5
      and today = "''2024-05-01''" and oc = Resolved]
    add_guards [where st = soonState and rt = exampleRuntime and g = exampleGlobals and now = 5
      and today = "''2024-05-01''" and oc = Resolved]
    add_guards [where st = "initialState ''2024-05-01''" and rt = exampleRuntime and g = exampleGlobals
      and now = 5 and today = "''2024-05-01''" and oc = Resolved]
    add_guards [where st = farState and rt = exampleRuntime and g = exampleGlobals and now = 5
      and today = "''2024-05-01''" and oc = Resolved and uid = "''u1''"]
    add_guards [where st = acmeState and rt = exampleRuntime and g = exampleGlobals and now = 5
      and today = "''2024-05-01''" and oc = Resolved and uid = "''u1''"]
  by (simp add: formState_simps soonState_simps farState_simps acmeState_simps initialNewJob_def
      initialState_def collectionPath_def appId_def exampleGlobals_def exampleRuntime_def
      exampleDate_def exampleAccepts_def exampleDateString_def)

text \<open>The claim as stated fails: the component shows the list and the open, empty form, and
  the handler, run with the empty company and the empty title, issues the \<^verbatim>\<open>addDoc\<close>.\<close>

theorem add_empty_company_writes:
  "\<not> loading formState \<and> showAddModal formState
   \<and> company (newJob formState) = [] \<and> title (newJob formState) = []
   \<and> issued formState (handleAddJob exampleRuntime exampleGlobals 5 ''2024-05-01'' Resolved formState)
      = [AddDoc ''artifacts/tracker/users/u1/jobApplications''
           \<lparr>add_company = '''', add_title = '''', add_status = ''Applied'',
            add_appliedDate = Some 1714521600000, add_notes = '''', add_postingLink = '''',
            add_documentsUsed = '''', add_createdAt = 5\<rparr>]"
  by (simp add: formState_simps issued_def handleAddJob_def noUser_def jobToAdd_def initialNewJob_def
      collectionPath_def appId_def exampleGlobals_def exampleRuntime_def exampleDate_def
      exampleAccepts_def)

section \<open>The mirrored list is sorted\<close>

lemma set_arraySort: "set (arraySort f xs) = set xs"
  using mset_arraySort [of f xs] by (metis set_mset_mset)

lemma sortInsert_insort_key:
  assumes "dateOf rt x \<noteq> None" and "\<forall>y\<in>set ys. dateOf rt y \<noteq> None"
  shows "sortInsert (compareJobs rt) x ys = insort_key (\<lambda>j. - the (dateOf rt j)) x ys"
  using assms by (induction ys) (auto simp: SortCompare_def compareJobs_def dateOf_def)

lemma arraySort_sort_key:
  assumes "\<forall>y\<in>set ys. dateOf rt y \<noteq> None"
  shows "arraySort (compareJobs rt) ys = sort_key (\<lambda>j. - the (dateOf rt j)) ys"
  using assms unfolding arraySort_def
  by (induction ys) (auto simp: sortInsert_insort_key)

lemma sortInsert_ties:
  "\<forall>y\<in>set ys. SortCompare f x y = 0 \<Longrightarrow> sortInsert f x ys = x # ys"
  by (cases ys) auto

lemma arraySort_ties:
  "\<forall>x\<in>set ys. \<forall>y\<in>set ys. SortCompare f x y = 0 \<Longrightarrow> arraySort f ys = ys"
  unfolding arraySort_def by (induction ys) (auto simp: sortInsert_ties)

lemma sorted_wrt_all_pairs:
  "\<forall>x\<in>set xs. \<forall>y\<in>set xs. P x y \<Longrightarrow> sorted_wrt P xs"
  by (induction xs) auto

lemma tie_laterFirst:
  "SortCompare (compareJobs rt) a b = 0 \<Longrightarrow> laterFirst rt a b"
  by (auto simp: SortCompare_def compareJobs_def laterFirst_def dateOf_def split: option.splits)

lemma descending_parsed:
  assumes "\<forall>y\<in>set ys. dateOf rt y \<noteq> None"
  shows "descendingByDate rt (arraySort (compareJobs rt) ys)"
proof -
  let ?key = "\<lambda>j. - the (dateOf rt j)"
  have "sorted (map ?key (sort_key ?key ys))"
    by (rule sorted_sort_key)
  then have "sorted_wrt (\<lambda>a b. ?key a \<le> ?key b) (sort_key ?key ys)"
    by (simp add: sorted_map)
  moreover have "\<forall>a\<in>set (sort_key ?key ys). \<forall>b\<in>set (sort_key ?key ys).
      ?key a \<le> ?key b \<longrightarrow> laterFirst rt a b"
    using assms by (fastforce simp: laterFirst_def split: option.splits)
  ultimately have "sorted_wrt (laterFirst rt) (sort_key ?key ys)"
    by (metis (no_types, lifting) sorted_wrt_mono_rel)
  then show ?thesis
    by (simp add: descendingByDate_def arraySort_sort_key [OF assms])
qed

lemma stable_parsed:
  assumes "\<forall>y\<in>set ys. dateOf rt y \<noteq> None"
  shows "filter (\<lambda>j. dateOf rt j = k) (arraySort (compareJobs rt) ys) = filter (\<lambda>j. dateOf rt j = k) ys"
proof (cases k)
  case None
  have "filter (\<lambda>j. dateOf rt j = None) (arraySort (compareJobs rt) ys) = []"
    using assms by (simp add: set_arraySort)
  moreover have "filter (\<lambda>j. dateOf rt j = None) ys = []"
    using assms by simp
  ultimately show ?thesis using None by simp
next
  case (Some t)
  let ?key = "\<lambda>j. - the (dateOf rt j)"
  have same: "\<And>zs. set zs \<subseteq> set ys \<Longrightarrow>
      filter (\<lambda>j. dateOf rt j = Some t) zs = filter (\<lambda>j. ?key j = - t) zs"
    using assms by (intro filter_cong) auto
  have "filter (\<lambda>j. dateOf rt j = Some t) (sort_key ?key ys)
      = filter (\<lambda>j. ?key j = - t) (sort_key ?key ys)"
    by (rule same) simp
  also have "\<dots> = filter (\<lambda>j. ?key j = - t) ys"
    by (rule sort_key_stable)
  also have "\<dots> = filter (\<lambda>j. dateOf rt j = Some t) ys"
    by (rule same [symmetric]) simp
  finally show ?thesis
    using Some by (simp add: arraySort_sort_key [OF assms])
qed

text \<open>
  What the code does right. When every \<^verbatim>\<open>appliedDate\<close> of the snapshot parses, or when
  every comparison between two of its records gives zero or \<^verbatim>\<open>NaN\<close> (no two parsable
  dates differ), the list set by the snapshot callback holds exactly the snapshot's records,
  no record with a parsable date comes before one with a later date, and for every date the
  records of that date (and the records without a parsable date) stand in the order of the
  snapshot.
\<close>

lemma snapshot_sorted:
  assumes "(\<forall>d\<in>set docs. dateOf rt (toJob rt d) \<noteq> None)
         \<or> (\<forall>a\<in>set docs. \<forall>b\<in>set docs. SortCompare (compareJobs rt) (toJob rt a) (toJob rt b) = 0)"
  shows "mset (jobs (snapshotCallback rt docs st)) = mset (map (toJob rt) docs)
       \<and> descendingByDate rt (jobs (snapshotCallback rt docs st))
       \<and> (\<forall>k. filter (\<lambda>j. dateOf rt j = k) (jobs (snapshotCallback rt docs st))
              = filter (\<lambda>j. dateOf rt j = k) (map (toJob rt) docs))"
  using assms
proof
  assume "\<forall>d\<in>set docs. dateOf rt (toJob rt d) \<noteq> None"
  then have parsed: "\<forall>y\<in>set (map (toJob rt) docs). dateOf rt y \<noteq> None"
    by simp
  show ?thesis
    using descending_parsed [OF parsed] stable_parsed [OF parsed]
    by (simp add: snapshotCallback_def mset_arraySort)
next
  assume "\<forall>a\<in>set docs. \<forall>b\<in>set docs. SortCompare (compareJobs rt) (toJob rt a) (toJob rt b) = 0"
  then have ties: "\<forall>x\<in>set (map (toJob rt) docs). \<forall>y\<in>set (map (toJob rt) docs).
      SortCompare (compareJobs rt) x y = 0"
    by simp
  then have "\<forall>x\<in>set (map (toJob rt) docs). \<forall>y\<in>set (map (toJob rt) docs). laterFirst rt x y"
    using tie_laterFirst by blast
  then have "descendingByDate rt (map (toJob rt) docs)"
    unfolding descendingByDate_def by (rule sorted_wrt_all_pairs)
  then show ?thesis
    by (simp add: snapshotCallback_def arraySort_ties [OF ties])
qed

text \<open>On a snapshot whose dates all parse the three properties leave one list only, so
  every stable sort gives the list of this model.\<close>

lemma stable_sort_unique:
  assumes parsed: "\<forall>y\<in>set ys. dateOf rt y \<noteq> None"
    and perm: "mset res = mset ys"
    and desc: "descendingByDate rt res"
    and stable: "\<forall>k. filter (\<lambda>j. dateOf rt j = k) res = filter (\<lambda>j. dateOf rt j = k) ys"
  shows "res = arraySort (compareJobs rt) ys"
proof -
  let ?key = "\<lambda>j. - the (dateOf rt j)"
  have sets: "set res = set ys"
    using perm by (metis set_mset_mset)
  have "\<forall>a\<in>set res. \<forall>b\<in>set res. laterFirst rt a b \<longrightarrow> ?key a \<le> ?key b"
    using parsed sets by (fastforce simp: laterFirst_def split: option.splits)
  then have "sorted_wrt (\<lambda>a b. ?key a \<le> ?key b) res"
    using desc unfolding descendingByDate_def
    by (metis (no_types, lifting) sorted_wrt_mono_rel)
  then have sorted: "sorted (map ?key res)"
    by (simp add: sorted_map)
  have same: "\<And>k zs. k \<in> set ys \<Longrightarrow> set zs \<subseteq> set ys \<Longrightarrow>
      filter (\<lambda>j. ?key k = ?key j) zs = filter (\<lambda>j. dateOf rt j = dateOf rt k) zs"
  proof (intro filter_cong refl)
    fix k zs x
    assume "k \<in> set ys" "set zs \<subseteq> set ys" "x \<in> set zs"
    then obtain tk tx where "dateOf rt k = Some tk" "dateOf rt x = Some tx"
      using parsed by (metis not_None_eq subsetD)
    then show "(?key k = ?key x) = (dateOf rt x = dateOf rt k)"
      by auto
  qed
  have "filter (\<lambda>j. ?key k = ?key j) res = filter (\<lambda>j. ?key k = ?key j) ys"
    if "k \<in> set res" for k
  proof -
    have k: "k \<in> set ys"
      using that sets by simp
    have "filter (\<lambda>j. ?key k = ?key j) res = filter (\<lambda>j. dateOf rt j = dateOf rt k) res"
      using k sets by (intro same) simp_all
    also have "\<dots> = filter (\<lambda>j. dateOf rt j = dateOf rt k) ys"
      using stable by blast
    also have "\<dots> = filter (\<lambda>j. ?key k = ?key j) ys"
      using k by (intro same [symmetric]) simp_all
    finally show ?thesis .
  qed
  then have "sort_key ?key ys = res"
    using perm sorted by (intro properties_for_sort_key)
  then show ?thesis
    by (simp add: arraySort_sort_key [OF parsed])
qed

lemma toJob_examples:
  "getProp (toJob exampleRuntime docJan) ''appliedDate'' = Str ''2024-01-10''"
  "getProp (toJob exampleRuntime docMar) ''appliedDate'' = Str ''2024-03-05''"
  "getProp (toJob exampleRuntime docNoDate) ''appliedDate'' = Undefined"
  "getProp (toJob exampleRuntime docJan) ''id'' = Str ''a''"
  "getProp (toJob exampleRuntime docMar) ''id'' = Str ''c''"
  "getProp (toJob exampleRuntime docNoDate) ''id'' = Str ''i''"
  by (simp_all add: toJob_def getProp_def docJan_def docMar_def docNoDate_def exampleRuntime_def
      exampleISO_def map_add_def)

lemma dateOf_examples:
  "dateOf exampleRuntime (toJob exampleRuntime docJan) = Some 1704844800000"
  "dateOf exampleRuntime (toJob exampleRuntime docMar) = Some 1709596800000"
  "dateOf exampleRuntime (toJob exampleRuntime docNoDate) = None"
  by (simp_all add: dateOf_def toJob_examples) (simp_all add: exampleRuntime_def exampleDate_def)

lemma compare_examples:
  "SortCompare (compareJobs exampleRuntime) (toJob exampleRuntime docJan) (toJob exampleRuntime docMar) = 4752000000"
  "SortCompare (compareJobs exampleRuntime) (toJob exampleRuntime docMar) (toJob exampleRuntime docJan) = - 4752000000"
  "SortCompare (compareJobs exampleRuntime) (toJob exampleRuntime docJan) (toJob exampleRuntime docNoDate) = 0"
  "SortCompare (compareJobs exampleRuntime) (toJob exampleRuntime docNoDate) (toJob exampleRuntime docMar) = 0"
  "SortCompare (compareJobs exampleRuntime) (toJob exampleRuntime docNoDate) (toJob exampleRuntime docJan) = 0"
  "SortCompare (compareJobs exampleRuntime) (toJob exampleRuntime docMar) (toJob exampleRuntime docNoDate) = 0"
  using dateOf_examples by (simp_all add: SortCompare_def compareJobs_def dateOf_def)

lemma snapshot_sorted_example:
  "dateOf exampleRuntime (toJob exampleRuntime docJan) \<noteq> None
   \<and> dateOf exampleRuntime (toJob exampleRuntime docMar) \<noteq> None
   \<and> map (\<lambda>j. getProp j ''appliedDate'')
        (jobs (snapshotCallback exampleRuntime [docJan, docMar] (initialState ''2024-05-01'')))
      = [Str ''2024-03-05'', Str ''2024-01-10'']
   \<and> descendingByDate exampleRuntime
        (jobs (snapshotCallback exampleRuntime [docJan, docMar] (initialState ''2024-05-01'')))"
  using snapshot_sorted [where docs = "[docJan, docMar]" and rt = exampleRuntime
      and st = "initialState ''2024-05-01''"]
  by (simp add: dateOf_examples snapshotCallback_def arraySort_def compare_examples toJob_examples)

text \<open>
  C1. The mirror does not sort every snapshot by \<^verbatim>\<open>appliedDate\<close> descending. The open
  subscription delivers a snapshot of three documents: one dated 2024-01-10, one without a
  date, one dated 2024-03-05. The comparator gives \<^verbatim>\<open>NaN\<close> next to the undated record,
  the sort reads it as a tie, and the list keeps the order of the snapshot: the record of
  January stands before the record of March. This is against the claim, and against the
  code's own comment on line 108, \<^verbatim>\<open>Sort the jobs by applied date descending\<close>.
\<close>

theorem snapshot_mixed_dates_unsorted:
  "map (\<lambda>j. getProp j ''appliedDate'')
      (jobs (step exampleRuntime exampleGlobals readyState (Snapshot [docJan, docNoDate, docMar])))
     = [Str ''2024-01-10'', Undefined, Str ''2024-03-05'']
   \<and> \<not> descendingByDate exampleRuntime
        (jobs (step exampleRuntime exampleGlobals readyState (Snapshot [docJan, docNoDate, docMar])))"
  by (simp add: readyState_simps snapshotCallback_def arraySort_def compare_examples toJob_examples
      descendingByDate_def laterFirst_def dateOf_examples)

text \<open>
  What the claim asks for exists on that snapshot: the list March, January, undated holds
  the three records, is descending by date, and keeps the records of each date, and the
  undated ones, in the order of the snapshot.
\<close>

lemma mixed_dates_sortable:
  "mset (map (toJob exampleRuntime) [docMar, docJan, docNoDate])
     = mset (map (toJob exampleRuntime) [docJan, docNoDate, docMar])
   \<and> descendingByDate exampleRuntime (map (toJob exampleRuntime) [docMar, docJan, docNoDate])
   \<and> (\<forall>k. filter (\<lambda>j. dateOf exampleRuntime j = k) (map (toJob exampleRuntime) [docMar, docJan, docNoDate])
          = filter (\<lambda>j. dateOf exampleRuntime j = k) (map (toJob exampleRuntime) [docJan, docNoDate, docMar]))"
  by (auto simp add: descendingByDate_def laterFirst_def dateOf_examples)


section \<open>Start without a configuration\<close>

lemma no_config_mount:
  assumes "firebaseConfig g = None"
  shows "db (mount g today) = None \<and> userId (mount g today) = None
       \<and> \<not> authListener (mount g today) \<and> subscription (mount g today) = None
       \<and> calls (mount g today) = []
       \<and> console (mount g today) = [''Firebase config is missing.'']"
  using assms
  by (simp add: mount_def initialState_def initEffect_def subscriptionEffect_def rerender_def Let_def)

lemma no_config_step:
  assumes "db st = None \<and> userId st = None \<and> \<not> authListener st \<and> subscription st = None
       \<and> calls st = []
       \<and> filter (\<lambda>m. m = ''Firebase config is missing.'') (console st) = [''Firebase config is missing.'']"
  shows "db (step rt g st e) = None \<and> userId (step rt g st e) = None
       \<and> \<not> authListener (step rt g st e) \<and> subscription (step rt g st e) = None
       \<and> calls (step rt g st e) = []
       \<and> filter (\<lambda>m. m = ''Firebase config is missing.'') (console (step rt g st e))
           = [''Firebase config is missing.'']"
  using assms
  by (cases e)
    (simp_all add: submitAddForm_def handleAddJob_def handleDeleteJob_def handleUpdateStatus_def)

lemma no_config_foldl:
  assumes "db st = None \<and> userId st = None \<and> \<not> authListener st \<and> subscription st = None
       \<and> calls st = []
       \<and> filter (\<lambda>m. m = ''Firebase config is missing.'') (console st) = [''Firebase config is missing.'']"
  shows "db (foldl (step rt g) st evs) = None \<and> userId (foldl (step rt g) st evs) = None
       \<and> subscription (foldl (step rt g) st evs) = None
       \<and> calls (foldl (step rt g) st evs) = []
       \<and> filter (\<lambda>m. m = ''Firebase config is missing.'') (console (foldl (step rt g) st evs))
           = [''Firebase config is missing.'']"
  using assms
proof (induction evs arbitrary: st)
  case Nil
  then show ?case by simp
next
  case (Cons e evs)
  show ?case
    using Cons.IH [OF no_config_step [OF Cons.prems]] by simp
qed

text \<open>
  C6. Without a configuration the component logs \<^verbatim>\<open>Firebase config is missing.\<close> once and,
  whatever happens afterwards, makes no call into the SDK at all: no sign-in, no
  subscription, no add, update or delete; the store handle and the user identifier stay
  unset.
\<close>

theorem no_config_no_calls:
  assumes "firebaseConfig g = None"
  shows "calls (run rt g today evs) = []
       \<and> subscription (run rt g today evs) = None
       \<and> db (run rt g today evs) = None \<and> userId (run rt g today evs) = None
       \<and> filter (\<lambda>m. m = ''Firebase config is missing.'') (console (run rt g today evs))
           = [''Firebase config is missing.'']"
proof -
  have "db (mount g today) = None \<and> userId (mount g today) = None
       \<and> \<not> authListener (mount g today) \<and> subscription (mount g today) = None
       \<and> calls (mount g today) = []
       \<and> filter (\<lambda>m. m = ''Firebase config is missing.'') (console (mount g today))
           = [''Firebase config is missing.'']"
    using no_config_mount [OF assms, of today] by simp
  from no_config_foldl [OF this] show ?thesis
    by (simp add: run_def)
qed

theorem no_config_no_calls_witness:
  "firebaseConfig noConfigGlobals = None
   \<and> calls (run exampleRuntime noConfigGlobals ''2024-05-01''
        [OpenAddModal, Edit Company ''Acme'', AddJob 5 ''2024-05-01'' Resolved, DeleteJob ''x'' True Resolved,
         UpdateStatus ''x'' (Str ''Offer'') Resolved]) = []
   \<and> console (run exampleRuntime noConfigGlobals ''2024-05-01''
        [OpenAddModal, Edit Company ''Acme'', AddJob 5 ''2024-05-01'' Resolved, DeleteJob ''x'' True Resolved,
         UpdateStatus ''x'' (Str ''Offer'') Resolved])
      = [''Firebase config is missing.'', ''Database or User ID not ready.'']"
  using no_config_no_calls [where g = noConfigGlobals and rt = exampleRuntime
      and today = "''2024-05-01''"
      and evs = "[OpenAddModal, Edit Company ''Acme'', AddJob 5 ''2024-05-01'' Resolved,
         DeleteJob ''x'' True Resolved, UpdateStatus ''x'' (Str ''Offer'') Resolved]"]
  by (simp add: firebaseConfig_def noConfigGlobals_def run_def mount_def initialState_def
      initEffect_def subscriptionEffect_def rerender_def handleAddJob_def handleDeleteJob_def
      handleUpdateStatus_def Let_def)

section \<open>No identity yet\<close>

lemma idle_mount:
  "userId (mount g today) = None \<and> subscription (mount g today) = None
   \<and> filter isDataCall (calls (mount g today)) = []"
  by (simp add: mount_def initialState_def initEffect_def subscriptionEffect_def rerender_def Let_def
      split: option.splits)

lemma idle_step:
  assumes "\<not> isAuthEvent e"
    and "userId st = None \<and> subscription st = None \<and> filter isDataCall (calls st) = []"
  shows "userId (step rt g st e) = None \<and> subscription (step rt g st e) = None
       \<and> filter isDataCall (calls (step rt g st e)) = []"
  using assms
  by (cases e)
    (simp_all add: submitAddForm_def handleAddJob_def handleDeleteJob_def handleUpdateStatus_def
      split: option.splits)

lemma idle_foldl:
  assumes "\<forall>e\<in>set evs. \<not> isAuthEvent e"
    and "userId st = None \<and> subscription st = None \<and> filter isDataCall (calls st) = []"
  shows "userId (foldl (step rt g) st evs) = None \<and> subscription (foldl (step rt g) st evs) = None
       \<and> filter isDataCall (calls (foldl (step rt g) st evs)) = []"
  using assms
proof (induction evs arbitrary: st)
  case Nil
  then show ?case by simp
next
  case (Cons e evs)
  have "\<not> isAuthEvent e" and rest: "\<forall>e\<in>set evs. \<not> isAuthEvent e"
    using Cons.prems(1) by simp_all
  from idle_step [OF this(1) Cons.prems(2)] Cons.IH [OF rest] show ?case
    by simp
qed

lemma idle_run:
  assumes "\<forall>e\<in>set evs. \<not> isAuthEvent e"
  shows "userId (run rt g today evs) = None \<and> subscription (run rt g today evs) = None
       \<and> filter isDataCall (calls (run rt g today evs)) = []"
  unfolding run_def using assms idle_mount by (rule idle_foldl)

lemma auth_event_userId:
  "authListener st \<Longrightarrow>
   userId (step rt g st (AuthStateChanged user uuid)) = Some (case user of Some uid \<Rightarrow> uid | None \<Rightarrow> uuid)"
  by (simp add: rerender_def subscriptionEffect_def Let_def noUser_def split: option.splits)

lemma auth_event_subscribes:
  "authListener st \<Longrightarrow> db st \<noteq> None \<Longrightarrow> userId st = None \<Longrightarrow> subscription st = None
   \<Longrightarrow> uuid \<noteq> []
   \<Longrightarrow> issued st (step rt g st (AuthStateChanged None uuid)) = [OnSnapshot (collectionPath g uuid)]"
  by (auto simp add: issued_def rerender_def subscriptionEffect_def Let_def noUser_def)

text \<open>
  C7, as the code has it. As long as the identity listener has delivered no event, whether
  or not the sign-in failed, the user identifier stays unset, no subscription is open and no
  data call (subscription, add, update, delete) has been made. Every event of the identity
  listener resolves a user identifier: the user's \<^verbatim>\<open>uid\<close>, or, when the provider reports no
  user, the value of \<^verbatim>\<open>crypto.randomUUID()\<close>, under which the subscription is then opened.
\<close>

theorem no_identity_idle:
  "((\<forall>e\<in>set evs. \<not> isAuthEvent e)
      \<longrightarrow> userId (run rt g today evs) = None \<and> subscription (run rt g today evs) = None
          \<and> filter isDataCall (calls (run rt g today evs)) = [])
   \<and> (authListener st
      \<longrightarrow> userId (step rt g st (AuthStateChanged user uuid))
            = Some (case user of Some uid \<Rightarrow> uid | None \<Rightarrow> uuid))
   \<and> (authListener st \<and> db st \<noteq> None \<and> userId st = None \<and> subscription st = None \<and> uuid \<noteq> []
      \<longrightarrow> issued st (step rt g st (AuthStateChanged None uuid)) = [OnSnapshot (collectionPath g uuid)])"
  using idle_run [where evs = evs and g = g and today = today and rt = rt]
    auth_event_userId [where st = st and rt = rt and g = g and user = user and uuid = uuid]
    auth_event_subscribes [where st = st and uuid = uuid and rt = rt and g = g]
  by simp

theorem no_identity_idle_witness:
  "userId (run exampleRuntime exampleGlobals ''2024-05-01''
      [SignInRejected, OpenAddModal, AddJob 5 ''2024-05-01'' Resolved, UpdateStatus ''x'' (Str ''Offer'') Resolved]) = None
   \<and> filter isDataCall (calls (run exampleRuntime exampleGlobals ''2024-05-01''
      [SignInRejected, OpenAddModal, AddJob 5 ''2024-05-01'' Resolved, UpdateStatus ''x'' (Str ''Offer'') Resolved])) = []
   \<and> console (run exampleRuntime exampleGlobals ''2024-05-01''
      [SignInRejected, OpenAddModal, AddJob 5 ''2024-05-01'' Resolved, UpdateStatus ''x'' (Str ''Offer'') Resolved])
       = [''Firebase Auth failed:'', ''Database or User ID not ready.'']
   \<and> authListener (mount exampleGlobals ''2024-05-01'')
   \<and> userId (step exampleRuntime exampleGlobals (mount exampleGlobals ''2024-05-01'')
        (AuthStateChanged (Some ''u1'') ''uuid-1'')) = Some ''u1''
   \<and> issued (mount exampleGlobals ''2024-05-01'')
        (step exampleRuntime exampleGlobals (mount exampleGlobals ''2024-05-01'')
           (AuthStateChanged None ''uuid-1''))
       = [OnSnapshot ''artifacts/tracker/users/uuid-1/jobApplications'']"
  using no_identity_idle [where rt = exampleRuntime and g = exampleGlobals and today = "''2024-05-01''"
      and evs = "[SignInRejected, OpenAddModal, AddJob 5 ''2024-05-01'' Resolved, UpdateStatus ''x'' (Str ''Offer'') Resolved]"
      and st = "mount exampleGlobals ''2024-05-01''" and user = "Some ''u1''" and uuid = "''uuid-1''"]
  by (simp add: run_def mount_def initialState_def initEffect_def subscriptionEffect_def rerender_def
      firebaseConfig_def exampleGlobals_def handleAddJob_def handleUpdateStatus_def Let_def
      initialAuthToken_def collectionPath_def appId_def)

text \<open>The claim as stated fails: after a failed sign-in the provider reports no user, and
  the component subscribes under a random identifier.\<close>

theorem no_user_event_subscribes:
  "userId (run exampleRuntime exampleGlobals ''2024-05-01'' [SignInRejected, AuthStateChanged None ''uuid-1''])
     = Some ''uuid-1''
   \<and> filter isDataCall
        (calls (run exampleRuntime exampleGlobals ''2024-05-01'' [SignInRejected, AuthStateChanged None ''uuid-1'']))
     = [OnSnapshot ''artifacts/tracker/users/uuid-1/jobApplications'']
   \<and> filter isDataCall
        (calls (run exampleRuntime exampleGlobals ''2024-05-01''
           [SignInRejected, AuthStateChanged None ''uuid-1'', UpdateStatus ''x'' (Str ''Offer'') Resolved]))
     = [OnSnapshot ''artifacts/tracker/users/uuid-1/jobApplications'',
        UpdateDoc ''artifacts/tracker/users/uuid-1/jobApplications/x'' [(''status'', Str ''Offer'')]]"
  by (simp add: run_def mount_def initialState_def initEffect_def subscriptionEffect_def rerender_def
      firebaseConfig_def exampleGlobals_def handleUpdateStatus_def Let_def noUser_def docPath_def
      initialAuthToken_def collectionPath_def appId_def)

end
